theory Spec2Isabelle
  imports Complex_Main
begin

section \<open>The flow-valve parameter model of \<^verbatim>\<open>A_flow-meter.py\<close>\<close>

text \<open>
  The class \<^verbatim>\<open>FlowValve\<close> holds five inputs (\<^verbatim>\<open>_H\<close>, \<^verbatim>\<open>_RH\<close>, \<^verbatim>\<open>_theta\<close>,
  \<^verbatim>\<open>_D\<close>, \<^verbatim>\<open>_L\<close>), the constant \<^verbatim>\<open>_d\<close> and the two derived attributes \<^verbatim>\<open>_WT\<close> and
  \<^verbatim>\<open>_P\<close>. Python's floats are modelled as real numbers, so every statement below is one
  of exact arithmetic; the only failure exact arithmetic adds is the division by a
  cosine that is exactly zero, which Python reports as \<^verbatim>\<open>ZeroDivisionError\<close>.
  That branch belongs to exact arithmetic alone: \<^verbatim>\<open>math.cos\<close> of a double is never
  exactly zero, so the program on doubles always takes the other one. Where a statement
  below gives the outcome of a recomputation, a nonzero cosine is its hypothesis, or
  the branch is written out.

  A method that mutates the object takes the object and returns the outcome of the call
  (the exception raised, or the value returned) together with the object as the call
  leaves it, since an attribute assigned before an exception stays assigned.
\<close>

subsection \<open>Module constants\<close>

datatype error = ZeroDivisionError

definition radians :: "real \<Rightarrow> real" where
  \<comment> \<open>\<^verbatim>\<open>math.radians\<close>\<close>
  "radians x = x * (pi / 180)"

definition py_truediv :: "real \<Rightarrow> real \<Rightarrow> error + real" where
  \<comment> \<open>Python's \<^verbatim>\<open>a / b\<close> with a divisor that may be zero\<close>
  "py_truediv a b = (if b = 0 then Inl ZeroDivisionError else Inr (a / b))"

definition defaultHoles :: real where
  "defaultHoles = 6"

definition defaultRH :: real where
  "defaultRH = 3"

definition defaultLength :: real where
  "defaultLength = 100"

definition defaultTheta :: real where
  "defaultTheta = radians 70"

definition defaultD :: real where
  "defaultD = 40"

subsection \<open>Python's \<^verbatim>\<open>round\<close>\<close>

definition round_half_even :: "real \<Rightarrow> int" where
  \<comment> \<open>the nearest integer, a tie going to the even one\<close>
  "round_half_even x =
     (let f = \<lfloor>x\<rfloor>; r = x - of_int f
      in if r < 1 / 2 then f
         else if 1 / 2 < r then f + 1
         else if even f then f else f + 1)"


definition py_round :: "real \<Rightarrow> nat \<Rightarrow> real" where
  \<comment> \<open>\<^verbatim>\<open>round(x, ndigits)\<close>: a float with \<^verbatim>\<open>ndigits\<close> decimal places\<close>
  "py_round x ndigits = of_int (round_half_even (x * 10 ^ ndigits)) / 10 ^ ndigits"

subsection \<open>The class \<^verbatim>\<open>FlowValve\<close>\<close>

text \<open>The field \<open>attr_X\<close> is the attribute \<^verbatim>\<open>self._X\<close>.\<close>

record FlowValve =
  attr_H :: real
  attr_RH :: real
  attr_theta :: real
  attr_D :: real
  attr_L :: real
  attr_WT :: real
  attr_d :: real
  attr_P :: real

text \<open>The property getters.\<close>

definition H :: "FlowValve \<Rightarrow> real" where
  "H self = attr_H self"

definition RH :: "FlowValve \<Rightarrow> real" where
  "RH self = attr_RH self"

definition L :: "FlowValve \<Rightarrow> real" where
  "L self = attr_L self"

definition theta :: "FlowValve \<Rightarrow> real" where
  "theta self = attr_theta self"

definition D :: "FlowValve \<Rightarrow> real" where
  "D self = attr_D self"

definition P :: "FlowValve \<Rightarrow> real" where
  "P self = attr_P self"

definition WT :: "FlowValve \<Rightarrow> real" where
  "WT self = attr_WT self"

text \<open>The two methods that compute the derived attributes.\<close>

definition calculate_P :: "FlowValve \<Rightarrow> (error + real) \<times> FlowValve" where
  "calculate_P self =
     (case py_truediv (attr_D self) (cos (pi / 2 - attr_theta self)) of
        Inl e \<Rightarrow> (Inl e, self)
      | Inr p \<Rightarrow> (Inr p, self\<lparr>attr_P := p\<rparr>))"

definition calculate_WT :: "FlowValve \<Rightarrow> (error + real) \<times> FlowValve" where
  "calculate_WT self =
     (let w = attr_D self / 2 - (D self / 2 - D self / 10)
      in (Inr w, self\<lparr>attr_WT := w\<rparr>))"

text \<open>The property setters. Only \<^verbatim>\<open>theta\<close> and \<^verbatim>\<open>D\<close> call a method after the
  assignment, and both call \<^verbatim>\<open>calculate_P\<close> only.\<close>

definition H_setter :: "real \<Rightarrow> FlowValve \<Rightarrow> (error + unit) \<times> FlowValve" where
  "H_setter v self = (Inr (), self\<lparr>attr_H := v\<rparr>)"

definition RH_setter :: "real \<Rightarrow> FlowValve \<Rightarrow> (error + unit) \<times> FlowValve" where
  "RH_setter v self = (Inr (), self\<lparr>attr_RH := v\<rparr>)"

definition L_setter :: "real \<Rightarrow> FlowValve \<Rightarrow> (error + unit) \<times> FlowValve" where
  "L_setter v self = (Inr (), self\<lparr>attr_L := v\<rparr>)"

definition theta_setter :: "real \<Rightarrow> FlowValve \<Rightarrow> (error + unit) \<times> FlowValve" where
  "theta_setter v self =
     (case calculate_P (self\<lparr>attr_theta := v\<rparr>) of
        (Inl e, self') \<Rightarrow> (Inl e, self')
      | (Inr _, self') \<Rightarrow> (Inr (), self'))"

definition D_setter :: "real \<Rightarrow> FlowValve \<Rightarrow> (error + unit) \<times> FlowValve" where
  "D_setter v self =
     (case calculate_P (self\<lparr>attr_D := v\<rparr>) of
        (Inl e, self') \<Rightarrow> (Inl e, self')
      | (Inr _, self') \<Rightarrow> (Inr (), self'))"

text \<open>
  The constructor. A record has no missing field, so the three attributes that
  \<^verbatim>\<open>__init__\<close> assigns last (\<^verbatim>\<open>_WT\<close>, \<^verbatim>\<open>_d\<close>, \<^verbatim>\<open>_P\<close>) start at 0; no method reads
  one of them before its assignment. An exception in the constructor leaves no object.
\<close>

definition FlowValve_init :: "error + FlowValve" where
  "FlowValve_init =
     (let self0 = \<lparr>attr_H = defaultHoles, attr_RH = defaultRH, attr_theta = defaultTheta,
                   attr_D = defaultD, attr_L = defaultLength,
                   attr_WT = 0, attr_d = 0, attr_P = 0\<rparr>
      in case calculate_WT self0 of
           (Inl e, _) \<Rightarrow> Inl e
         | (Inr w, self1) \<Rightarrow>
             (let self2 = self1\<lparr>attr_WT := w, attr_d := 15\<rparr>
              in case calculate_P self2 of
                   (Inl e, _) \<Rightarrow> Inl e
                 | (Inr p, self3) \<Rightarrow> Inr (self3\<lparr>attr_P := p\<rparr>)))"

definition new_FlowValve :: FlowValve where
  \<comment> \<open>the object of \<^verbatim>\<open>flow_valve = FlowValve()\<close>\<close>
  "new_FlowValve = projr FlowValve_init"

subsection \<open>Client code: a sequence of statements on one object\<close>

text \<open>
  A statement a caller can run on a \<^verbatim>\<open>FlowValve\<close>: an assignment to one of the five
  properties, or a call of one of the two methods. \<open>run_statements\<close> runs a list of
  them, each in its own \<^verbatim>\<open>try\<close>, and returns the outcome of each statement and the
  object at the end.
\<close>

datatype statement =
    Assign_H real
  | Assign_RH real
  | Assign_L real
  | Assign_theta real
  | Assign_D real
  | Call_calculate_P
  | Call_calculate_WT

fun exec :: "statement \<Rightarrow> FlowValve \<Rightarrow> (error + unit) \<times> FlowValve" where
  "exec (Assign_H v) self = H_setter v self"
| "exec (Assign_RH v) self = RH_setter v self"
| "exec (Assign_L v) self = L_setter v self"
| "exec (Assign_theta v) self = theta_setter v self"
| "exec (Assign_D v) self = D_setter v self"
| "exec Call_calculate_P self =
     (case calculate_P self of (Inl e, self') \<Rightarrow> (Inl e, self') | (Inr _, self') \<Rightarrow> (Inr (), self'))"
| "exec Call_calculate_WT self =
     (case calculate_WT self of (Inl e, self') \<Rightarrow> (Inl e, self') | (Inr _, self') \<Rightarrow> (Inr (), self'))"

fun run_statements :: "statement list \<Rightarrow> FlowValve \<Rightarrow> (error + unit) list \<times> FlowValve" where
  "run_statements [] self = ([], self)"
| "run_statements (st # sts) self =
     (case exec st self of
        (r, self') \<Rightarrow> (case run_statements sts self' of (rs, self'') \<Rightarrow> (r # rs, self'')))"

fun assigns_theta_or_D :: "statement \<Rightarrow> bool" where
  "assigns_theta_or_D (Assign_theta _) = True"
| "assigns_theta_or_D (Assign_D _) = True"
| "assigns_theta_or_D _ = False"

subsection \<open>The command handlers\<close>



text \<open>
  \<^verbatim>\<open>FlowValveCommandExecuteHandler.notify\<close> builds a fresh \<^verbatim>\<open>FlowValve\<close> and walks the
  command inputs. A command input is its \<^verbatim>\<open>id\<close> and the number that the host's
  \<^verbatim>\<open>unitsMgr.evaluateExpression\<close> returns for it (unused for the two text boxes). The
  state of the loop is the object and the numbers written to \<^verbatim>\<open>formattedText\<close>, by
  input id. An exception ends the handler in its \<^verbatim>\<open>except\<close> branch (a message box);
  otherwise \<^verbatim>\<open>create_flow_valve\<close> is called on the object, which is the host's work and
  is not modelled.
\<close>

type_synonym command_input = "string \<times> real"

type_synonym formatted = "string \<rightharpoonup> real"

definition ExecuteHandler_input ::
  "command_input \<Rightarrow> FlowValve \<times> formatted \<Rightarrow> error + FlowValve \<times> formatted" where
  "ExecuteHandler_input inp st =
     (case (inp, st) of ((ident, x), (flow_valve, texts)) \<Rightarrow>
        if ident = ''theta'' then
          (case theta_setter x flow_valve of
             (Inl e, _) \<Rightarrow> Inl e | (Inr _, fv) \<Rightarrow> Inr (fv, texts))
        else if ident = ''D'' then
          (case D_setter x flow_valve of
             (Inl e, _) \<Rightarrow> Inl e | (Inr _, fv) \<Rightarrow> Inr (fv, texts))
        else if ident = ''L'' then
          (case L_setter x flow_valve of
             (Inl e, _) \<Rightarrow> Inl e | (Inr _, fv) \<Rightarrow> Inr (fv, texts))
        else if ident = ''RH'' then
          (case RH_setter x flow_valve of
             (Inl e, _) \<Rightarrow> Inl e | (Inr _, fv) \<Rightarrow> Inr (fv, texts))
        else if ident = ''H'' then
          (case H_setter x flow_valve of
             (Inl e, _) \<Rightarrow> Inl e | (Inr _, fv) \<Rightarrow> Inr (fv, texts))
        else if ident = ''P'' then
          Inr (flow_valve, texts(''P'' \<mapsto> py_round (P flow_valve) 2))
        else if ident = ''WT'' then
          Inr (flow_valve, texts(''WT'' \<mapsto> py_round (WT flow_valve) 2))
        else Inr (flow_valve, texts))"

fun ExecuteHandler_loop ::
  "command_input list \<Rightarrow> FlowValve \<times> formatted \<Rightarrow> error + FlowValve \<times> formatted" where
  "ExecuteHandler_loop [] st = Inr st"
| "ExecuteHandler_loop (inp # inps) st =
     (case ExecuteHandler_input inp st of
        Inl e \<Rightarrow> Inl e
      | Inr st' \<Rightarrow> ExecuteHandler_loop inps st')"

definition ExecuteHandler_notify :: "command_input list \<Rightarrow> error + FlowValve \<times> formatted" where
  "ExecuteHandler_notify inputs =
     (case FlowValve_init of
        Inl e \<Rightarrow> Inl e
      | Inr flow_valve \<Rightarrow> ExecuteHandler_loop inputs (flow_valve, Map.empty))"

definition dialog_inputs :: "real \<Rightarrow> real \<Rightarrow> real \<Rightarrow> real \<Rightarrow> real \<Rightarrow> command_input list" where
  \<comment> \<open>the seven inputs in the order \<^verbatim>\<open>FlowValveCommandCreatedHandler.notify\<close> adds them\<close>
  "dialog_inputs t dm len rh h =
     [(''theta'', t), (''D'', dm), (''L'', len), (''RH'', rh), (''H'', h), (''P'', 0), (''WT'', 0)]"

subsection \<open>The invariant of the transducer distance\<close>

text \<open>
  \<^verbatim>\<open>_P\<close> is up to date with \<^verbatim>\<open>_D\<close> and \<^verbatim>\<open>_theta\<close> wherever the quotient is defined.
\<close>

definition P_fresh :: "FlowValve \<Rightarrow> bool" where
  "P_fresh self \<longleftrightarrow>
     (cos (pi / 2 - attr_theta self) = 0 \<or> attr_P self = attr_D self / cos (pi / 2 - attr_theta self))"

section \<open>Basic facts\<close>

lemma default_angle: "pi / 2 - radians 70 = pi / 9"
  by (simp add: radians_def)

text \<open>
  The default angle leaves the cosine of 20 degrees in the divisor. It is a root of
  \<open>8 c\<^sup>3 - 6 c - 1\<close> (the triple-angle formula at \<open>pi / 3\<close>), which is increasing
  above \<open>1 / 2\<close>; that encloses it between two decimals.
\<close>

lemma cos_pi_9_cubic: "8 * cos (pi / 9) ^ 3 - 6 * cos (pi / 9) - 1 = (0::real)"
proof -
  have "cos (3 * (pi / 9)) = 4 * cos (pi / 9) ^ 3 - 3 * cos (pi / 9)"
    by (rule cos_treble_cos)
  moreover have "3 * (pi / 9) = pi / 3" by simp
  ultimately have "4 * cos (pi / 9) ^ 3 - 3 * cos (pi / 9) = 1 / 2"
    by (simp add: cos_60)
  then show ?thesis by simp
qed

lemma cos_pi_9_gt_half: "1 / 2 < cos (pi / 9)"
proof -
  have "cos (pi / 3) < cos (pi / 9)"
    by (rule cos_monotone_0_pi) (simp_all)
  then show ?thesis by (simp add: cos_60)
qed

lemma cubic_mono:
  fixes a b :: real
  assumes "1 / 2 < a" "a \<le> b"
  shows "8 * a ^ 3 - 6 * a - 1 \<le> 8 * b ^ 3 - 6 * b - 1"
proof -
  have pos: "0 \<le> 8 * (a * a + a * b + b * b) - 6"
  proof -
    have "1 / 4 \<le> a * a" using assms mult_mono [of "1/2" a "1/2" a] by simp
    moreover have "1 / 4 \<le> a * b" using assms mult_mono [of "1/2" a "1/2" b] by simp
    moreover have "1 / 4 \<le> b * b" using assms mult_mono [of "1/2" b "1/2" b] by simp
    ultimately show ?thesis by simp
  qed
  have "(8 * b ^ 3 - 6 * b - 1) - (8 * a ^ 3 - 6 * a - 1) = (b - a) * (8 * (a * a + a * b + b * b) - 6)"
    by (simp add: algebra_simps power3_eq_cube)
  moreover have "0 \<le> (b - a) * (8 * (a * a + a * b + b * b) - 6)"
    using assms pos by (intro mult_nonneg_nonneg) simp_all
  ultimately show ?thesis by linarith
qed

lemma cos_pi_9_lower: "9396 / 10000 < cos (pi / 9)"
proof (rule ccontr)
  assume "\<not> 9396 / 10000 < cos (pi / 9)"
  then have le: "cos (pi / 9) \<le> 9396 / 10000" by simp
  have "8 * cos (pi / 9) ^ 3 - 6 * cos (pi / 9) - 1 \<le> 8 * (9396 / 10000 :: real) ^ 3 - 6 * (9396 / 10000) - 1"
    by (rule cubic_mono [OF cos_pi_9_gt_half le])
  also have "\<dots> < 0" by (simp add: power3_eq_cube)
  finally show False using cos_pi_9_cubic by simp
qed

lemma cos_pi_9_upper: "cos (pi / 9) < 9397 / 10000"
proof (rule ccontr)
  assume "\<not> cos (pi / 9) < 9397 / 10000"
  then have le: "9397 / 10000 \<le> cos (pi / 9)" by simp
  have "0 < 8 * (9397 / 10000 :: real) ^ 3 - 6 * (9397 / 10000) - 1"
    by (simp add: power3_eq_cube)
  also have "\<dots> \<le> 8 * cos (pi / 9) ^ 3 - 6 * cos (pi / 9) - 1"
    by (rule cubic_mono [OF _ le]) simp
  finally show False using cos_pi_9_cubic by simp
qed

lemma round_half_even_unique:
  assumes "of_int n - 1 / 2 < x" "x < of_int n + 1 / 2"
  shows "round_half_even x = n"
proof (cases "of_int n \<le> x")
  case True
  then have "\<lfloor>x\<rfloor> = n" using assms by (intro floor_unique) linarith+
  then show ?thesis using assms by (simp add: round_half_even_def Let_def)
next
  case False
  then have "\<lfloor>x\<rfloor> = n - 1" using assms by (intro floor_unique) auto
  then show ?thesis using assms False by (simp add: round_half_even_def Let_def)
qed

subsection \<open>The constructor and the setters, evaluated\<close>

lemma default_divisor: "cos (pi / 2 - defaultTheta) = cos (pi / 9)"
  by (simp add: defaultTheta_def default_angle)

lemma default_divisor_nonzero: "cos (pi / 2 - defaultTheta) \<noteq> 0"
  using cos_pi_9_gt_half by (simp add: default_divisor)

lemma FlowValve_init_eq:
  "FlowValve_init =
     Inr \<lparr>attr_H = 6, attr_RH = 3, attr_theta = radians 70, attr_D = 40, attr_L = 100,
          attr_WT = 4, attr_d = 15, attr_P = 40 / cos (pi / 9)\<rparr>"
  using default_divisor_nonzero
  by (simp add: FlowValve_init_def calculate_WT_def calculate_P_def py_truediv_def D_def
      Let_def defaultHoles_def defaultRH_def defaultD_def defaultLength_def default_divisor)
    (simp add: defaultTheta_def)

lemma new_FlowValve_eq:
  "new_FlowValve =
     \<lparr>attr_H = 6, attr_RH = 3, attr_theta = radians 70, attr_D = 40, attr_L = 100,
      attr_WT = 4, attr_d = 15, attr_P = 40 / cos (pi / 9)\<rparr>"
  by (simp add: new_FlowValve_def FlowValve_init_eq)

lemma FlowValve_init_new: "FlowValve_init = Inr new_FlowValve"
  by (simp add: new_FlowValve_eq FlowValve_init_eq)

lemma calculate_P_eq:
  "calculate_P self =
     (if cos (pi / 2 - attr_theta self) = 0 then (Inl ZeroDivisionError, self)
      else (Inr (attr_D self / cos (pi / 2 - attr_theta self)),
            self\<lparr>attr_P := attr_D self / cos (pi / 2 - attr_theta self)\<rparr>))"
  by (simp add: calculate_P_def py_truediv_def)

lemma calculate_WT_eq:
  "calculate_WT self = (Inr (attr_D self / 10), self\<lparr>attr_WT := attr_D self / 10\<rparr>)"
  by (simp add: calculate_WT_def D_def Let_def)

lemma theta_setter_eq:
  "theta_setter v self =
     (if cos (pi / 2 - v) = 0 then (Inl ZeroDivisionError, self\<lparr>attr_theta := v\<rparr>)
      else (Inr (), self\<lparr>attr_theta := v, attr_P := attr_D self / cos (pi / 2 - v)\<rparr>))"
  by (simp add: theta_setter_def calculate_P_eq)

lemma D_setter_eq:
  "D_setter v self =
     (if cos (pi / 2 - attr_theta self) = 0 then (Inl ZeroDivisionError, self\<lparr>attr_D := v\<rparr>)
      else (Inr (), self\<lparr>attr_D := v, attr_P := v / cos (pi / 2 - attr_theta self)\<rparr>))"
  by (simp add: D_setter_def calculate_P_eq)

lemma exec_P_fresh: "P_fresh self \<Longrightarrow> P_fresh (snd (exec st self))"
  by (cases st)
    (simp_all add: P_fresh_def H_setter_def RH_setter_def L_setter_def theta_setter_eq
      D_setter_eq calculate_P_eq calculate_WT_eq)

lemma snd_run_statements_Cons:
  "snd (run_statements (st # sts) self) = snd (run_statements sts (snd (exec st self)))"
  by (simp split: prod.splits)

lemma run_statements_P_fresh: "P_fresh self \<Longrightarrow> P_fresh (snd (run_statements sts self))"
proof (induction sts arbitrary: self)
  case Nil
  then show ?case by simp
next
  case (Cons st sts)
  from Cons.prems have "P_fresh (snd (exec st self))" by (rule exec_P_fresh)
  then have "P_fresh (snd (run_statements sts (snd (exec st self))))" by (rule Cons.IH)
  then show ?case by (simp only: snd_run_statements_Cons)
qed

lemma new_FlowValve_P_fresh: "P_fresh new_FlowValve"
  by (simp add: P_fresh_def new_FlowValve_eq default_angle)

subsection \<open>The execute handler on the dialog's inputs, and the default distance\<close>

lemma py_round_4: "py_round 4 2 = 4"
  by (simp add: py_round_def round_half_even_def Let_def)

lemma ExecuteHandler_notify_dialog:
  "ExecuteHandler_notify (dialog_inputs t dm len rh h) =
     (if cos (pi / 2 - t) = 0 then Inl ZeroDivisionError
      else Inr (\<lparr>attr_H = h, attr_RH = rh, attr_theta = t, attr_D = dm, attr_L = len,
                 attr_WT = 4, attr_d = 15, attr_P = dm / cos (pi / 2 - t)\<rparr>,
                [''P'' \<mapsto> py_round (dm / cos (pi / 2 - t)) 2, ''WT'' \<mapsto> 4]))"
  by (simp add: ExecuteHandler_notify_def FlowValve_init_eq dialog_inputs_def
      ExecuteHandler_input_def theta_setter_eq D_setter_eq L_setter_def RH_setter_def
      H_setter_def P_def WT_def py_round_4)

lemma exec_establishes_P_fresh: "assigns_theta_or_D st \<Longrightarrow> P_fresh (snd (exec st self))"
  by (cases st) (simp_all add: P_fresh_def theta_setter_eq D_setter_eq)

lemma default_P_bounds:
  "425660 / 10000 < 40 / cos (pi / 9)" "40 / cos (pi / 9) < 425720 / 10000"
proof -
  have pos: "0 < cos (pi / 9)" using cos_pi_9_gt_half by linarith
  have "425660 / 10000 * cos (pi / 9) < 425660 / 10000 * (9397 / 10000)"
    using cos_pi_9_upper by simp
  also have "\<dots> < (40::real)" by simp
  finally show "425660 / 10000 < 40 / cos (pi / 9)"
    using pos by (simp add: pos_less_divide_eq)
  have "(40::real) < 425720 / 10000 * (9396 / 10000)" by simp
  also have "\<dots> < 425720 / 10000 * cos (pi / 9)"
    using cos_pi_9_lower by simp
  finally show "40 / cos (pi / 9) < 425720 / 10000"
    using pos by (simp add: pos_divide_less_eq)
qed

lemma default_P_rounded: "py_round (40 / cos (pi / 9)) 2 = 4257 / 100"
proof -
  have "round_half_even (40 / cos (pi / 9) * 100) = 4257"
    using default_P_bounds by (intro round_half_even_unique) simp_all
  then show ?thesis by (simp add: py_round_def)
qed

subsection \<open>Further evaluation facts\<close>

lemma cos_pi_9_nonzero: "cos (pi / 9) \<noteq> 0"
  using cos_pi_9_gt_half by simp

lemma radians_90: "radians 90 = pi / 2"
  by (simp add: radians_def)

lemma scenario_after_two_writes:
  "run_statements [Assign_D 40, Assign_theta (radians 70)] new_FlowValve =
     ([Inr (), Inr ()], new_FlowValve)"
  by (simp add: D_setter_eq theta_setter_eq new_FlowValve_eq default_angle cos_pi_9_nonzero)

lemma default_P_not_40: "40 / cos (pi / 9) \<noteq> 40"
  using default_P_bounds(1) by simp

lemma tiny_angle:
  "cos (pi / 2 - 1 / 10 ^ 9) \<noteq> (0::real)" "\<bar>cos (pi / 2 - 1 / 10 ^ 9 :: real)\<bar> < 1 / 10 ^ 6"
proof -
  have eq: "cos (pi / 2 - 1 / 10 ^ 9) = sin (1 / 10 ^ 9 :: real)"
    by (simp add: cos_diff)
  have "(0::real) < 1 / 10 ^ 9" by simp
  moreover have "(1::real) / 10 ^ 9 < pi" using pi_ge_two by simp
  ultimately have pos: "0 < sin (1 / 10 ^ 9 :: real)" by (rule sin_gt_zero)
  then show "cos (pi / 2 - 1 / 10 ^ 9) \<noteq> (0::real)" unfolding eq by simp
  have "\<bar>sin (1 / 10 ^ 9 :: real)\<bar> \<le> \<bar>1 / 10 ^ 9\<bar>" by (rule abs_sin_x_le_abs_x)
  then show "\<bar>cos (pi / 2 - 1 / 10 ^ 9 :: real)\<bar> < 1 / 10 ^ 6"
    unfolding eq by simp
qed

section \<open>The claims\<close>

text \<open>
  Claim C1. For every \<^verbatim>\<open>FlowValve\<close> (the constructed object after any statements on
  it) whose diameter \<open>D\<close> is positive and whose angle has
  \<open>\<bar>cos (pi / 2 - theta)\<bar> > 1e-6\<close>, reading \<open>P\<close> gives exactly
  \<open>D / cos (pi / 2 - theta)\<close>, which is also what \<^verbatim>\<open>calculate_P\<close> returns, and the value
  is strictly positive when \<open>0 < theta < pi\<close>.
\<close>

theorem C1_transducer_distance:
  assumes init: "FlowValve_init = Inr self0"
    and reach: "self = snd (run_statements sts self0)"
    and Dpos: "0 < D self"
    and away: "1 / 10 ^ 6 < \<bar>cos (pi / 2 - theta self)\<bar>"
  shows "P self = D self / cos (pi / 2 - theta self)
    \<and> fst (calculate_P self) = Inr (D self / cos (pi / 2 - theta self))
    \<and> (0 < theta self \<and> theta self < pi \<longrightarrow> 0 < P self)"
proof -
  from init have "self0 = new_FlowValve" by (simp add: FlowValve_init_new)
  then have "P_fresh self"
    using reach new_FlowValve_P_fresh by (simp add: run_statements_P_fresh)
  moreover from away have nz: "cos (pi / 2 - attr_theta self) \<noteq> 0"
    by (auto simp: theta_def)
  ultimately have eq: "P self = D self / cos (pi / 2 - theta self)"
    by (simp add: P_fresh_def P_def D_def theta_def)
  have ret: "fst (calculate_P self) = Inr (D self / cos (pi / 2 - theta self))"
    using nz by (simp add: calculate_P_eq D_def theta_def)
  have "0 < P self" if "0 < theta self" "theta self < pi"
  proof -
    have "0 < sin (theta self)" using that by (rule sin_gt_zero)
    then have "0 < cos (pi / 2 - theta self)" by (simp add: cos_diff)
    then show ?thesis using Dpos eq by simp
  qed
  with eq ret show ?thesis by simp
qed

text \<open>
  The witness: the angle set to a right angle, then the diameter to 50 and the hole
  count to 8; the distance read back is 50.
\<close>

theorem C1_transducer_distance_witness:
  "FlowValve_init = Inr new_FlowValve
   \<and> 0 < D (snd (run_statements [Assign_theta (pi / 2), Assign_D 50, Assign_H 8] new_FlowValve))
   \<and> 1 / 10 ^ 6 < \<bar>cos (pi / 2 - theta (snd (run_statements [Assign_theta (pi / 2), Assign_D 50, Assign_H 8] new_FlowValve)))\<bar>
   \<and> 0 < theta (snd (run_statements [Assign_theta (pi / 2), Assign_D 50, Assign_H 8] new_FlowValve))
   \<and> theta (snd (run_statements [Assign_theta (pi / 2), Assign_D 50, Assign_H 8] new_FlowValve)) < pi
   \<and> P (snd (run_statements [Assign_theta (pi / 2), Assign_D 50, Assign_H 8] new_FlowValve)) = 50
   \<and> 0 < P (snd (run_statements [Assign_theta (pi / 2), Assign_D 50, Assign_H 8] new_FlowValve))"
proof -
  let ?s = "snd (run_statements [Assign_theta (pi / 2), Assign_D 50, Assign_H 8] new_FlowValve)"
  have s: "?s = new_FlowValve\<lparr>attr_H := 8, attr_theta := pi / 2, attr_D := 50, attr_P := 50\<rparr>"
    by (simp add: theta_setter_eq D_setter_eq H_setter_def new_FlowValve_eq)
  have h1: "0 < D ?s" unfolding s by (simp add: D_def)
  have h2: "1 / 10 ^ 6 < \<bar>cos (pi / 2 - theta ?s)\<bar>" unfolding s by (simp add: theta_def)
  have h3: "0 < theta ?s \<and> theta ?s < pi" unfolding s by (simp add: theta_def)
  from C1_transducer_distance [OF FlowValve_init_new refl h1 h2] h3
  have "P ?s = D ?s / cos (pi / 2 - theta ?s) \<and> 0 < P ?s" by simp
  moreover have "D ?s / cos (pi / 2 - theta ?s) = 50" unfolding s by (simp add: D_def theta_def)
  ultimately show ?thesis using FlowValve_init_new h1 h2 h3 by simp
qed

text \<open>
  Claim C2, evaluated on the code. The claim asks that \<open>wallThickness\<close> be
  \<open>mainDiameter / 10\<close> also after the diameter was changed through the \<^verbatim>\<open>D\<close> setter.
  On the fresh object the wall thickness is \<open>40 / 10\<close>; after \<^verbatim>\<open>flow_valve.D = 50\<close>
  the setter has returned, \<open>D\<close> reads 50 and \<open>WT\<close> still reads 4, not 5.
\<close>

theorem C2_wall_thickness_after_D_setter:
  "fst (D_setter 50 new_FlowValve) = Inr ()
   \<and> D (snd (D_setter 50 new_FlowValve)) = 50
   \<and> WT (snd (D_setter 50 new_FlowValve)) = 4
   \<and> WT new_FlowValve = D new_FlowValve / 10"
  by (simp add: D_setter_eq new_FlowValve_eq default_angle cos_pi_9_nonzero D_def WT_def)

text \<open>
  Claim C3, evaluated on the code. The claim asks that setting the diameter recompute
  both derived quantities. The \<^verbatim>\<open>D\<close> setter calls \<^verbatim>\<open>calculate_P\<close> only: it leaves
  \<open>WT\<close> as it was, whatever the value written. The execute handler shows it: with the
  dialog's diameter at 50 and every other input at its default, the object handed to
  \<^verbatim>\<open>create_flow_valve\<close> has \<open>D = 50\<close> and \<open>WT = 4\<close>, and the text of the wall-thickness
  box is 4.
\<close>

theorem C3_D_setter_leaves_WT:
  "WT (snd (D_setter v self)) = WT self
   \<and> ExecuteHandler_notify (dialog_inputs (radians 70) 50 100 3 6) =
       Inr (\<lparr>attr_H = 6, attr_RH = 3, attr_theta = radians 70, attr_D = 50, attr_L = 100,
              attr_WT = 4, attr_d = 15, attr_P = 50 / cos (pi / 2 - radians 70)\<rparr>,
            [''P'' \<mapsto> py_round (50 / cos (pi / 2 - radians 70)) 2, ''WT'' \<mapsto> 4])"
  by (simp add: D_setter_eq WT_def ExecuteHandler_notify_dialog default_angle cos_pi_9_nonzero)

text \<open>
  Claim C4, amended. The \<^verbatim>\<open>theta\<close> setter signals no error for an angle whose
  \<open>cos (pi / 2 - angle)\<close> is within a small epsilon of zero: for every angle at which
  that cosine is not zero, however small, it stores the angle, stores
  \<open>P = D / cos (pi / 2 - angle)\<close> and returns normally. The code has no
  \<^verbatim>\<open>DegenerateAngleError\<close>. A right angle is not such an angle: there the cosine
  is 1, and the setter stores \<open>P = D\<close>.
\<close>

theorem C4_nonzero_cosine_accepted:
  assumes "cos (pi / 2 - v) \<noteq> 0"
  shows "theta_setter v self =
      (Inr (), self\<lparr>attr_theta := v, attr_P := D self / cos (pi / 2 - v)\<rparr>)
    \<and> theta_setter (pi / 2) self = (Inr (), self\<lparr>attr_theta := pi / 2, attr_P := D self\<rparr>)"
  using assms by (simp add: theta_setter_eq D_def)

text \<open>
  The witness: the angle \<open>1e-9\<close>, whose cosine term is not zero and is below
  \<open>1e-6\<close> in absolute value, and the right angle, both on the fresh object.
\<close>

theorem C4_nonzero_cosine_accepted_witness:
  "cos (pi / 2 - 1 / 10 ^ 9) \<noteq> (0::real)
   \<and> \<bar>cos (pi / 2 - 1 / 10 ^ 9 :: real)\<bar> < 1 / 10 ^ 6
   \<and> theta_setter (1 / 10 ^ 9) new_FlowValve =
       (Inr (), new_FlowValve\<lparr>attr_theta := 1 / 10 ^ 9,
                               attr_P := 40 / cos (pi / 2 - 1 / 10 ^ 9)\<rparr>)
   \<and> theta_setter (pi / 2) new_FlowValve =
       (Inr (), new_FlowValve\<lparr>attr_theta := pi / 2, attr_P := 40\<rparr>)"
proof -
  have d: "D new_FlowValve = 40" by (simp add: D_def new_FlowValve_eq)
  from C4_nonzero_cosine_accepted [OF tiny_angle(1), of new_FlowValve]
  have "theta_setter (1 / 10 ^ 9) new_FlowValve =
       (Inr (), new_FlowValve\<lparr>attr_theta := 1 / 10 ^ 9,
                               attr_P := 40 / cos (pi / 2 - 1 / 10 ^ 9)\<rparr>)
   \<and> theta_setter (pi / 2) new_FlowValve =
       (Inr (), new_FlowValve\<lparr>attr_theta := pi / 2, attr_P := 40\<rparr>)"
    by (simp only: d)
  with tiny_angle show ?thesis by blast
qed

text \<open>
  The claim as stated fails on the fresh object: the assignment of \<open>pi / 2\<close> returns
  normally with \<open>P = 40\<close>, and the angle \<open>1e-9\<close>, whose cosine term is below
  \<open>1e-6\<close> in absolute value, is accepted too.
\<close>

theorem C4_counterexample:
  "theta_setter (pi / 2) new_FlowValve =
     (Inr (), new_FlowValve\<lparr>attr_theta := pi / 2, attr_P := 40\<rparr>)
   \<and> \<bar>cos (pi / 2 - 1 / 10 ^ 9 :: real)\<bar> < 1 / 10 ^ 6
   \<and> fst (theta_setter (1 / 10 ^ 9) new_FlowValve) = Inr ()"
proof -
  have a: "theta_setter (pi / 2) new_FlowValve =
     (Inr (), new_FlowValve\<lparr>attr_theta := pi / 2, attr_P := 40\<rparr>)"
    by (simp add: theta_setter_eq new_FlowValve_eq)
  have b: "fst (theta_setter (1 / 10 ^ 9) new_FlowValve) = Inr ()"
    using tiny_angle(1) by (simp add: theta_setter_eq)
  from a tiny_angle(2) b show ?thesis by blast
qed

text \<open>
  Claim C5, amended. In the scenario \<open>D = 40\<close>, then \<open>theta\<close> of 70 degrees, then
  \<open>theta\<close> of 90 degrees, all three assignments return normally. The first two leave
  the fresh object as it is, with \<open>P = 40 / cos (pi / 2 - radians 70)\<close>; the third is
  accepted and stores the angle \<open>pi / 2\<close> and \<open>P = 40\<close>.
\<close>

theorem C5_third_write_accepted:
  "run_statements [Assign_D 40, Assign_theta (radians 70)] new_FlowValve =
     ([Inr (), Inr ()], new_FlowValve)
   \<and> P new_FlowValve = 40 / cos (pi / 2 - radians 70)
   \<and> run_statements [Assign_D 40, Assign_theta (radians 70), Assign_theta (radians 90)]
        new_FlowValve =
       ([Inr (), Inr (), Inr ()], new_FlowValve\<lparr>attr_theta := pi / 2, attr_P := 40\<rparr>)"
  by (simp add: D_setter_eq theta_setter_eq new_FlowValve_eq default_angle cos_pi_9_nonzero
      radians_90 P_def)

text \<open>
  The claim as stated fails: the third assignment raises nothing, and the distance read
  after it is 40, which is not the value held after the 70-degree write.
\<close>

theorem C5_counterexample:
  "fst (theta_setter (radians 90)
         (snd (run_statements [Assign_D 40, Assign_theta (radians 70)] new_FlowValve))) = Inr ()
   \<and> P (snd (theta_setter (radians 90)
         (snd (run_statements [Assign_D 40, Assign_theta (radians 70)] new_FlowValve)))) = 40
   \<and> P (snd (run_statements [Assign_D 40, Assign_theta (radians 70)] new_FlowValve)) \<noteq> 40
   \<and> theta (snd (theta_setter (radians 90)
         (snd (run_statements [Assign_D 40, Assign_theta (radians 70)] new_FlowValve)))) = pi / 2"
  using default_P_not_40
  by (simp only: scenario_after_two_writes snd_conv)
    (simp add: theta_setter_eq radians_90 P_def theta_def new_FlowValve_eq)




text \<open>
  Claim C7, amended. The constructor returns an object with \<open>H = 6\<close>, \<open>RH = 3\<close>,
  an angle of 70 degrees, \<open>D = 40\<close> and \<open>L = 100\<close>; its transducer distance is
  \<open>40 / cos (pi / 2 - radians 70)\<close>, which rounds to 42.57 at two decimal places, and its
  wall thickness is 4.
\<close>

theorem C7_default_round_trip:
  "FlowValve_init = Inr new_FlowValve
   \<and> H new_FlowValve = 6 \<and> RH new_FlowValve = 3 \<and> theta new_FlowValve = radians 70
   \<and> D new_FlowValve = 40 \<and> L new_FlowValve = 100
   \<and> P new_FlowValve = 40 / cos (pi / 2 - radians 70)
   \<and> py_round (P new_FlowValve) 2 = 4257 / 100
   \<and> WT new_FlowValve = 4"
  by (simp add: FlowValve_init_new)
    (simp add: new_FlowValve_eq H_def RH_def theta_def D_def L_def P_def WT_def default_angle
      default_P_rounded)

text \<open>
  The claim as stated fails in its rounded value: the distance lies between 42.566 and
  42.572, so two decimal places give 42.57 and not 42.56.
\<close>

theorem C7_counterexample: "py_round (P new_FlowValve) 2 \<noteq> 4256 / 100"
  by (simp add: new_FlowValve_eq P_def default_P_rounded)



text \<open>
  Claim C9. After any finite sequence of assignments to \<open>theta\<close> and \<open>D\<close> on the
  constructed object, if \<open>cos (pi / 2 - theta)\<close> is not zero at the current angle, the
  stored distance is the current \<open>D\<close> divided by it.
\<close>

theorem C9_P_follows_theta_and_D:
  assumes init: "FlowValve_init = Inr self0"
    and only: "list_all assigns_theta_or_D sts"
    and reach: "self = snd (run_statements sts self0)"
    and nz: "cos (pi / 2 - theta self) \<noteq> 0"
  shows "P self = D self / cos (pi / 2 - theta self)"
proof -
  from init have "self0 = new_FlowValve" by (simp add: FlowValve_init_new)
  then have "P_fresh self"
    using reach new_FlowValve_P_fresh by (simp add: run_statements_P_fresh)
  with nz show ?thesis by (simp add: P_fresh_def P_def D_def theta_def)
qed

text \<open>
  The witness: the diameter set to 50, the angle to a right angle, the diameter to 60;
  the distance read back is 60.
\<close>

theorem C9_P_follows_theta_and_D_witness:
  "FlowValve_init = Inr new_FlowValve
   \<and> list_all assigns_theta_or_D [Assign_D 50, Assign_theta (pi / 2), Assign_D 60]
   \<and> cos (pi / 2 - theta (snd (run_statements [Assign_D 50, Assign_theta (pi / 2), Assign_D 60] new_FlowValve))) \<noteq> 0
   \<and> D (snd (run_statements [Assign_D 50, Assign_theta (pi / 2), Assign_D 60] new_FlowValve)) = 60
   \<and> P (snd (run_statements [Assign_D 50, Assign_theta (pi / 2), Assign_D 60] new_FlowValve)) = 60"
proof -
  let ?sts = "[Assign_D 50, Assign_theta (pi / 2), Assign_D 60]"
  let ?s = "snd (run_statements ?sts new_FlowValve)"
  have s: "?s = new_FlowValve\<lparr>attr_theta := pi / 2, attr_D := 60, attr_P := 60\<rparr>"
    by (simp add: theta_setter_eq D_setter_eq new_FlowValve_eq default_angle cos_pi_9_nonzero)
  have h1: "list_all assigns_theta_or_D ?sts" by simp
  have h2: "cos (pi / 2 - theta ?s) \<noteq> 0" unfolding s by (simp add: theta_def)
  have d: "D ?s = 60" unfolding s by (simp add: D_def)
  have t: "cos (pi / 2 - theta ?s) = 1" unfolding s by (simp add: theta_def)
  from C9_P_follows_theta_and_D [OF FlowValve_init_new h1 refl h2]
  have "P ?s = 60" by (simp only: d t)
  with FlowValve_init_new h1 h2 d show ?thesis by simp
qed

text \<open>
  Claim C10. Each of the five setters stores the value it is given, unchanged, and the
  getter reads it back: no validation, no clamping, and no reduction of \<open>theta\<close> modulo
  \<open>2 pi\<close>. \<^verbatim>\<open>H\<close>, \<^verbatim>\<open>RH\<close> and \<^verbatim>\<open>L\<close> always return; \<^verbatim>\<open>theta\<close> and \<^verbatim>\<open>D\<close> return
  unless the recomputation of \<open>P\<close> divides by zero, and the value is stored even then.
\<close>

theorem C10_setters_store_raw_value:
  "H (snd (H_setter v self)) = v \<and> fst (H_setter v self) = Inr ()
   \<and> RH (snd (RH_setter v self)) = v \<and> fst (RH_setter v self) = Inr ()
   \<and> L (snd (L_setter v self)) = v \<and> fst (L_setter v self) = Inr ()
   \<and> theta (snd (theta_setter v self)) = v
   \<and> fst (theta_setter v self) = (if cos (pi / 2 - v) = 0 then Inl ZeroDivisionError else Inr ())
   \<and> D (snd (D_setter v self)) = v
   \<and> fst (D_setter v self) =
       (if cos (pi / 2 - theta self) = 0 then Inl ZeroDivisionError else Inr ())"
  by (simp add: H_def RH_def L_def theta_def D_def H_setter_def RH_setter_def L_setter_def
      theta_setter_eq D_setter_eq)

end
